theory Spec2Isabelle
  imports Complex_Main "HOL-Library.Multiset"
begin

section \<open>JavaScript values as they reach \<open>displayResults\<close>\<close>

text \<open>
  \<open>static/app.js\<close> receives the comparison as parsed JSON. A field of a JSON object is
  a finite number, \<open>null\<close>, or missing (reading it gives \<open>undefined\<close>). Numbers are
  modelled as exact rationals: rounding of IEEE doubles and the sign of zero are not
  part of the model. The results of arithmetic are numbers extended by \<open>NaN\<close> and the two
  infinities, as in JavaScript.
\<close>

datatype jsval = Undefined | Null | Num rat

datatype jsnum = NaN | NInf | Fin rat | PInf

datatype error = TypeError

text \<open>\<open>ToNumber\<close>: \<open>undefined\<close> becomes \<open>NaN\<close>, \<open>null\<close> becomes \<open>0\<close>.\<close>

fun ToNumber :: "jsval \<Rightarrow> jsnum" where
  "ToNumber Undefined = NaN"
| "ToNumber Null = Fin 0"
| "ToNumber (Num r) = Fin r"

text \<open>\<open>ToBoolean\<close> on a field and on a computed number: \<open>0\<close> and \<open>NaN\<close> are falsy.\<close>

fun truthy :: "jsval \<Rightarrow> bool" where
  "truthy Undefined = False"
| "truthy Null = False"
| "truthy (Num r) = (r \<noteq> 0)"

fun truthy_num :: "jsnum \<Rightarrow> bool" where
  "truthy_num NaN = False"
| "truthy_num (Fin r) = (r \<noteq> 0)"
| "truthy_num NInf = True"
| "truthy_num PInf = True"

text \<open>The operator \<open>/\<close> on numbers. A zero divisor gives an infinity or \<open>NaN\<close>, never a fault.\<close>

fun js_div :: "jsnum \<Rightarrow> jsnum \<Rightarrow> jsnum" where
  "js_div NaN b = NaN"
| "js_div a NaN = NaN"
| "js_div (Fin a) (Fin b) =
     (if b \<noteq> 0 then Fin (a / b)
      else if a = 0 then NaN else if 0 < a then PInf else NInf)"
| "js_div (Fin a) PInf = Fin 0"
| "js_div (Fin a) NInf = Fin 0"
| "js_div PInf (Fin b) = (if 0 \<le> b then PInf else NInf)"
| "js_div NInf (Fin b) = (if 0 \<le> b then NInf else PInf)"
| "js_div PInf PInf = NaN"
| "js_div PInf NInf = NaN"
| "js_div NInf PInf = NaN"
| "js_div NInf NInf = NaN"

text \<open>The operator \<open>-\<close>.\<close>

fun js_sub :: "jsnum \<Rightarrow> jsnum \<Rightarrow> jsnum" where
  "js_sub NaN b = NaN"
| "js_sub a NaN = NaN"
| "js_sub (Fin a) (Fin b) = Fin (a - b)"
| "js_sub (Fin a) PInf = NInf"
| "js_sub (Fin a) NInf = PInf"
| "js_sub PInf (Fin b) = PInf"
| "js_sub NInf (Fin b) = NInf"
| "js_sub PInf PInf = NaN"
| "js_sub NInf NInf = NaN"
| "js_sub PInf NInf = PInf"
| "js_sub NInf PInf = NInf"

text \<open>The operator \<open>*\<close>.\<close>

fun js_mul :: "jsnum \<Rightarrow> jsnum \<Rightarrow> jsnum" where
  "js_mul NaN b = NaN"
| "js_mul a NaN = NaN"
| "js_mul (Fin a) (Fin b) = Fin (a * b)"
| "js_mul (Fin a) PInf = (if a = 0 then NaN else if 0 < a then PInf else NInf)"
| "js_mul (Fin a) NInf = (if a = 0 then NaN else if 0 < a then NInf else PInf)"
| "js_mul PInf (Fin b) = (if b = 0 then NaN else if 0 < b then PInf else NInf)"
| "js_mul NInf (Fin b) = (if b = 0 then NaN else if 0 < b then NInf else PInf)"
| "js_mul PInf PInf = PInf"
| "js_mul NInf NInf = PInf"
| "js_mul PInf NInf = NInf"
| "js_mul NInf PInf = NInf"

text \<open>\<open>Math.abs\<close>.\<close>

fun js_abs :: "jsnum \<Rightarrow> jsnum" where
  "js_abs NaN = NaN"
| "js_abs (Fin a) = Fin \<bar>a\<bar>"
| "js_abs PInf = PInf"
| "js_abs NInf = PInf"

text \<open>The operator \<open><\<close> on numbers: every comparison with \<open>NaN\<close> is false.\<close>

fun js_lt :: "jsnum \<Rightarrow> jsnum \<Rightarrow> bool" where
  "js_lt NaN b = False"
| "js_lt a NaN = False"
| "js_lt (Fin a) (Fin b) = (a < b)"
| "js_lt (Fin a) PInf = True"
| "js_lt (Fin a) NInf = False"
| "js_lt PInf b = False"
| "js_lt NInf (Fin b) = True"
| "js_lt NInf PInf = True"
| "js_lt NInf NInf = False"

text \<open>\<open>x > 0\<close> on a field, as the filters and guards of the source write it.\<close>

definition gt0 :: "jsval \<Rightarrow> bool" where
  "gt0 v = js_lt (Fin 0) (ToNumber v)"

text \<open>\<open>x || 0\<close> on a computed number and on a field.\<close>

definition or0 :: "jsnum \<Rightarrow> jsnum" where
  "or0 x = (if truthy_num x then x else Fin 0)"

definition or0_val :: "jsval \<Rightarrow> jsnum" where
  "or0_val v = (if truthy v then ToNumber v else Fin 0)"

text \<open>
  \<open>formatPrice\<close> hands its argument to \<open>Intl.NumberFormat\<close>, which converts it to a number
  and prints it; \<open>NaN\<close> is printed as \<open>NaN\<close> and an infinity as the infinity sign. The
  model keeps the number that is printed, not its text.
\<close>

definition formatPrice :: "jsval \<Rightarrow> jsnum" where
  "formatPrice v = ToNumber v"

text \<open>
  \<open>v.toFixed(n)\<close> on a field: a method call on \<open>undefined\<close> or \<open>null\<close> throws a
  \<open>TypeError\<close>; on a number it prints the number.
\<close>

fun toFixed :: "jsval \<Rightarrow> error + jsnum" where
  "toFixed (Num r) = Inr (Fin r)"
| "toFixed Undefined = Inl TypeError"
| "toFixed Null = Inl TypeError"

section \<open>\<open>Array.prototype.sort\<close> with a comparator\<close>

text \<open>
  \<open>sort\<close> is stable, and an element moves behind another one only when the comparator
  returns a positive number for the pair. For a comparator that is a consistent order
  the result is the one stable ordering; the model is the insertion sort that produces
  it. (A comparator that returns \<open>NaN\<close> treats the pair as equal; where that makes the
  comparator inconsistent, ECMAScript leaves the order to the engine, and the model
  fixes the one of this insertion sort.)
\<close>

fun insort_cmp :: "('a \<Rightarrow> 'a \<Rightarrow> jsnum) \<Rightarrow> 'a \<Rightarrow> 'a list \<Rightarrow> 'a list" where
  "insort_cmp cmp x [] = [x]"
| "insort_cmp cmp x (y # ys) =
     (if js_lt (Fin 0) (cmp x y) then y # insort_cmp cmp x ys else x # y # ys)"

definition sort_cmp :: "('a \<Rightarrow> 'a \<Rightarrow> jsnum) \<Rightarrow> 'a list \<Rightarrow> 'a list" where
  "sort_cmp cmp xs = foldr (insort_cmp cmp) xs []"


text \<open>
  A \<open>forEach\<close> or \<open>map\<close> whose body can throw: the first \<open>TypeError\<close> ends the whole
  call, otherwise the pieces are collected in order.
\<close>

fun for_each :: "('a \<Rightarrow> error + 'b) \<Rightarrow> 'a list \<Rightarrow> error + 'b list" where
  "for_each f [] = Inr []"
| "for_each f (x # xs) =
     (case f x of
        Inl e \<Rightarrow> Inl e
      | Inr y \<Rightarrow> (case for_each f xs of Inl e \<Rightarrow> Inl e | Inr ys \<Rightarrow> Inr (y # ys)))"

section \<open>The data of one comparison\<close>

text \<open>
  The object \<open>data\<close> that \<open>compareETFs\<close> hands to \<open>displayResults\<close>. Of a fund the model
  keeps the fields that enter the ranking, a difference or a division; \<open>name\<close>,
  \<open>change_percent\<close>, \<open>volume\<close>, \<open>last_updated\<close>, \<open>expense_ratio\<close> and \<open>stopaj_rate\<close> are
  only printed, each behind its own guard, and are left out together with the text,
  the labels and the styles of the page. \<open>all_etfs\<close> and \<open>price_difference\<close> are \<open>None\<close>
  when the key is missing or \<open>null\<close>; \<open>price_difference\<close> is read by symbol. Every field
  of the model is a number, \<open>null\<close> or missing: strings in the place of numbers are
  not considered.
\<close>

record etf =
  symbol :: string
  current_price :: jsval
  gold_backing_grams :: jsval
  nav_price :: jsval

record price_diff =
  per_gram_price :: jsval
  percent :: jsval

record data =
  recommendation :: string
  all_etfs :: "etf list option"
  price_difference :: "(string \<rightharpoonup> price_diff) option"
  spot_gram_gold_price :: jsval

text \<open>
  The elements that \<open>document.getElementById\<close> looks up; a flag is \<open>False\<close> when the page
  has no such element and the lookup gives \<open>null\<close>.
\<close>

record page =
  recommendation_el :: bool
  etfList_el :: bool
  results_el :: bool
  baseValueComparison_el :: bool

section \<open>The local ranking for the cards (lines 56 to 66)\<close>

record per_gram_item =
  pg_etf :: etf
  pg_perGramPrice :: jsnum

definition etfsWithPerGram :: "etf list \<Rightarrow> per_gram_item list" where
  "etfsWithPerGram es =
     sort_cmp (\<lambda>a b. js_sub (pg_perGramPrice a) (pg_perGramPrice b))
       (map (\<lambda>e. \<lparr>pg_etf = e,
                   pg_perGramPrice =
                     js_div (ToNumber (current_price e)) (ToNumber (gold_backing_grams e))\<rparr>)
          (filter (\<lambda>e. truthy (gold_backing_grams e)) es))"

definition cheapestPerGramPrice :: "per_gram_item list \<Rightarrow> jsnum option" where
  "cheapestPerGramPrice items =
     (case items of [] \<Rightarrow> None | x # _ \<Rightarrow> Some (pg_perGramPrice x))"

definition cheapestEtfSymbol :: "per_gram_item list \<Rightarrow> string option" where
  "cheapestEtfSymbol items =
     (case items of [] \<Rightarrow> None | x # _ \<Rightarrow> Some (symbol (pg_etf x)))"

section \<open>The base value between ZGOLD and GLDTR (lines 68 to 76)\<close>

text \<open>The variable is computed and not printed anywhere.\<close>

definition baseValue :: "etf list \<Rightarrow> jsnum option" where
  "baseValue es =
     (case find (\<lambda>e. symbol e = ''ZGOLD'') es of
        None \<Rightarrow> None
      | Some zgoldEtf \<Rightarrow>
          (case find (\<lambda>e. symbol e = ''GLDTR'') es of
             None \<Rightarrow> None
           | Some gldtrEtf \<Rightarrow>
               if gt0 (current_price zgoldEtf) \<and> gt0 (current_price gldtrEtf)
               then Some (js_div (ToNumber (current_price gldtrEtf))
                                 (ToNumber (current_price zgoldEtf)))
               else None))"

definition spotGramGoldPrice :: "data \<Rightarrow> jsval option" where
  "spotGramGoldPrice d =
     (if truthy (spot_gram_gold_price d) then Some (spot_gram_gold_price d) else None)"

section \<open>The local ranking for the table (lines 92 to 115)\<close>

datatype formula = ZGOLD_formula | GLDTR_formula | ETF_formula

record base_item =
  item_etf :: etf
  item_baseValue :: jsval
  item_perGramPrice :: jsnum
  item_formula :: formula

definition qualifies :: "etf \<Rightarrow> bool" where
  "qualifies e =
     (gt0 (current_price e) \<and> truthy (gold_backing_grams e) \<and> gt0 (gold_backing_grams e))"

definition make_item :: "etf \<Rightarrow> base_item" where
  "make_item e =
     (let goldBacking = gold_backing_grams e;
          perGramPrice = js_div (ToNumber (current_price e)) (ToNumber goldBacking)
      in \<lparr>item_etf = e,
          item_baseValue = goldBacking,
          item_perGramPrice = perGramPrice,
          item_formula =
            (if symbol e = ''ZGOLD'' then ZGOLD_formula
             else if symbol e = ''GLDTR'' then GLDTR_formula
             else ETF_formula)\<rparr>)"

definition etfsWithBaseValue :: "etf list \<Rightarrow> base_item list" where
  "etfsWithBaseValue es =
     sort_cmp (\<lambda>a b. js_sub (item_perGramPrice a) (item_perGramPrice b))
       (map make_item (filter qualifies es))"


section \<open>The comparison table (lines 129 to 373)\<close>

text \<open>
  The NAV column of a row: absent when no ranked fund has a positive NAV; otherwise
  \<open>N/A\<close>, the NAV alone, or the NAV with the premium of the price over it.
\<close>

datatype nav_cell =
    NavHidden
  | NavNA
  | NavOnly jsnum
  | NavDiff jsnum jsnum jsnum bool

definition hasNavData :: "base_item list \<Rightarrow> bool" where
  "hasNavData items =
     list_ex (\<lambda>item. truthy (nav_price (item_etf item)) \<and> gt0 (nav_price (item_etf item))) items"

definition nav_column :: "bool \<Rightarrow> etf \<Rightarrow> nav_cell" where
  "nav_column hasNav e =
     (if \<not> hasNav then NavHidden
      else if \<not> truthy (nav_price e) then NavNA
      else if truthy (nav_price e) \<and> truthy (current_price e) then
        (let navDiff = js_sub (ToNumber (current_price e)) (ToNumber (nav_price e));
             navDiffPercent = js_mul (js_div navDiff (ToNumber (nav_price e))) (Fin 100);
             isPremium = js_lt (Fin 0) navDiff
         in NavDiff (formatPrice (nav_price e)) navDiff navDiffPercent isPremium)
      else NavOnly (formatPrice (nav_price e)))"

text \<open>
  One row of the table. \<open>row_isBest\<close> is the badge \<open>EN UYGUN\<close>; the two differences are
  printed when the row is not the best one.
\<close>

record table_row =
  row_symbol :: string
  row_isBest :: bool
  row_baseValue :: jsnum
  row_current_price :: jsnum
  row_nav :: nav_cell
  row_perGramPrice :: jsnum
  row_priceDiffAbsolute :: jsnum
  row_priceDiffPercent :: jsnum

definition table_row_of :: "bool \<Rightarrow> base_item \<Rightarrow> nat \<times> base_item \<Rightarrow> error + table_row" where
  "table_row_of hasNav bestValueEtf p =
     (let index = fst p; item = snd p;
          isBest = (index = 0);
          e = item_etf item;
          perGramPrice = js_div (ToNumber (current_price e)) (ToNumber (gold_backing_grams e));
          cheapest = item_perGramPrice bestValueEtf;
          priceDiffPercent =
            (if isBest then Fin 0
             else js_mul (js_div (js_sub perGramPrice cheapest) cheapest) (Fin 100));
          priceDiffAbsolute = (if isBest then Fin 0 else js_sub perGramPrice cheapest)
      in case toFixed (item_baseValue item) of
           Inl err \<Rightarrow> Inl err
         | Inr shownBase \<Rightarrow>
             Inr \<lparr>row_symbol = symbol e,
                  row_isBest = isBest,
                  row_baseValue = shownBase,
                  row_current_price = formatPrice (current_price e),
                  row_nav = nav_column hasNav e,
                  row_perGramPrice = perGramPrice,
                  row_priceDiffAbsolute = priceDiffAbsolute,
                  row_priceDiffPercent = priceDiffPercent\<rparr>)"

definition table_rows :: "base_item list \<Rightarrow> error + table_row list" where
  "table_rows items =
     (case items of
        [] \<Rightarrow> Inr []
      | bestValueEtf # _ \<Rightarrow>
          for_each (table_row_of (hasNavData items) bestValueEtf) (enumerate 0 items))"

text \<open>The lines of the summary for the funds after the best one (\<open>slice(1)\<close>).\<close>

record other_line =
  other_symbol :: string
  other_perGramPrice :: jsnum
  other_diffAbsolute :: jsnum
  other_diffPercent :: jsnum

definition other_line_of :: "base_item \<Rightarrow> base_item \<Rightarrow> other_line" where
  "other_line_of bestValueEtf item =
     \<lparr>other_symbol = symbol (item_etf item),
      other_perGramPrice = item_perGramPrice item,
      other_diffAbsolute = js_sub (item_perGramPrice item) (item_perGramPrice bestValueEtf),
      other_diffPercent =
        js_mul (js_div (js_sub (item_perGramPrice item) (item_perGramPrice bestValueEtf))
                       (item_perGramPrice bestValueEtf)) (Fin 100)\<rparr>"

text \<open>
  The worked examples under the table, one line for each of ZGOLD, GLDTR and ISGLK. With
  a spot price a line is printed when the fund is among the ranked ones. Without a spot
  price the ZGOLD line is always printed, with \<open>0\<close> in place of what is not found.
\<close>

record example_line =
  ex_symbol :: string
  ex_spot :: "jsnum option"
  ex_price :: jsnum
  ex_baseValue :: jsnum
  ex_perGramPrice :: jsnum

definition find_item :: "string \<Rightarrow> base_item list \<Rightarrow> base_item option" where
  "find_item s items = find (\<lambda>e. symbol (item_etf e) = s) items"

definition example_with_spot :: "jsval \<Rightarrow> base_item list \<Rightarrow> string \<Rightarrow> error + example_line list" where
  "example_with_spot spot items s =
     (case find_item s items of
        None \<Rightarrow> Inr []
      | Some item \<Rightarrow>
          (case toFixed (item_baseValue item) of
             Inl err \<Rightarrow> Inl err
           | Inr shownBase \<Rightarrow>
               Inr [\<lparr>ex_symbol = s,
                     ex_spot = Some (formatPrice spot),
                     ex_price = formatPrice (current_price (item_etf item)),
                     ex_baseValue = shownBase,
                     ex_perGramPrice = item_perGramPrice item\<rparr>]))"

definition example_fallback :: "base_item list \<Rightarrow> string \<Rightarrow> error + example_line" where
  "example_fallback items s =
     (case find_item s items of
        None \<Rightarrow>
          Inr \<lparr>ex_symbol = s, ex_spot = None, ex_price = Fin 0,
               ex_baseValue = Fin 0, ex_perGramPrice = Fin 0\<rparr>
      | Some item \<Rightarrow>
          (case toFixed (item_baseValue item) of
             Inl err \<Rightarrow> Inl err
           | Inr shownBase \<Rightarrow>
               Inr \<lparr>ex_symbol = s,
                    ex_spot = None,
                    ex_price = or0_val (current_price (item_etf item)),
                    ex_baseValue = shownBase,
                    ex_perGramPrice = or0 (item_perGramPrice item)\<rparr>))"

definition example_without_spot :: "base_item list \<Rightarrow> string \<Rightarrow> error + example_line list" where
  "example_without_spot items s =
     (if s = ''ZGOLD'' \<or> find_item s items \<noteq> None then
        (case example_fallback items s of Inl err \<Rightarrow> Inl err | Inr l \<Rightarrow> Inr [l])
      else Inr [])"

definition examples :: "jsval option \<Rightarrow> base_item list \<Rightarrow> error + example_line list" where
  "examples spot items =
     (case for_each
             (case spot of
                Some v \<Rightarrow> example_with_spot v items
              | None \<Rightarrow> example_without_spot items)
             [''ZGOLD'', ''GLDTR'', ''ISGLK''] of
        Inl err \<Rightarrow> Inl err
      | Inr ls \<Rightarrow> Inr (concat ls))"

text \<open>What is written into the element \<open>baseValueComparison\<close>.\<close>

record comparison =
  cmp_spot :: "jsnum option"
  cmp_rows :: "table_row list"
  cmp_best_symbol :: string
  cmp_best_baseValue :: jsnum
  cmp_best_current_price :: jsnum
  cmp_best_perGramPrice :: jsnum
  cmp_best_formula :: formula
  cmp_others :: "other_line list"
  cmp_examples :: "example_line list"

datatype panel = NoElement | NoData | Comparison comparison

definition comparison_panel :: "jsval option \<Rightarrow> base_item list \<Rightarrow> error + panel" where
  "comparison_panel spot items =
     (case items of
        [] \<Rightarrow> Inr NoData
      | bestValueEtf # rest \<Rightarrow>
          (case table_rows items of
             Inl err \<Rightarrow> Inl err
           | Inr rows \<Rightarrow>
               (case toFixed (item_baseValue bestValueEtf) of
                  Inl err \<Rightarrow> Inl err
                | Inr shownBase \<Rightarrow>
                    (case examples spot items of
                       Inl err \<Rightarrow> Inl err
                     | Inr exs \<Rightarrow>
                         Inr (Comparison
                           \<lparr>cmp_spot = map_option formatPrice spot,
                            cmp_rows = rows,
                            cmp_best_symbol = symbol (item_etf bestValueEtf),
                            cmp_best_baseValue = shownBase,
                            cmp_best_current_price =
                              formatPrice (current_price (item_etf bestValueEtf)),
                            cmp_best_perGramPrice = item_perGramPrice bestValueEtf,
                            cmp_best_formula = item_formula bestValueEtf,
                            cmp_others = map (other_line_of bestValueEtf) rest,
                            cmp_examples = exs\<rparr>)))))"


section \<open>The cards (lines 388 to 509)\<close>

text \<open>
  \<open>cheapestPerGramPrice\<close> is a number or \<open>null\<close>: \<open>null\<close> is falsy, and \<open>0\<close> in a
  subtraction.
\<close>

fun truthy_opt :: "jsnum option \<Rightarrow> bool" where
  "truthy_opt None = False"
| "truthy_opt (Some x) = truthy_num x"

fun num_opt :: "jsnum option \<Rightarrow> jsnum" where
  "num_opt None = Fin 0"
| "num_opt (Some x) = x"

text \<open>
  The price at the head of a card: the price of a gram when that number is truthy,
  otherwise the price of a share.
\<close>

datatype card_price = PerGram jsnum | SharePrice jsnum

text \<open>
  \<open>card_isCheapest\<close> is the class \<open>cheapest\<close> with the badge \<open>EN UCUZ\<close> and the trophy;
  \<open>card_price_diff\<close> is the block with the difference to the cheapest fund, made from
  the entry of \<open>price_difference\<close>; \<open>card_formula\<close> is the block of ZGOLD and of GLDTR with
  the backing and the price of a gram.
\<close>

record card =
  card_symbol :: string
  card_isCheapest :: bool
  card_price :: card_price
  card_backing :: "jsval option"
  card_price_diff :: "(jsnum \<times> jsnum) option"
  card_formula :: "(jsnum \<times> jsnum) option"

definition card_perGramPrice :: "etf \<Rightarrow> jsnum option" where
  "card_perGramPrice e =
     (if truthy (gold_backing_grams e)
      then Some (js_div (ToNumber (current_price e)) (ToNumber (gold_backing_grams e)))
      else None)"

definition isCheapest :: "jsnum option \<Rightarrow> etf \<Rightarrow> bool" where
  "isCheapest cheapest e =
     (if truthy (gold_backing_grams e) \<and> truthy_opt cheapest
      then js_lt (js_abs (js_sub (num_opt (card_perGramPrice e)) (num_opt cheapest)))
                 (Fin (1 / 10000))
      else False)"

definition card_price_diff_of ::
    "jsnum option \<Rightarrow> price_diff option \<Rightarrow> error + (jsnum \<times> jsnum) option" where
  "card_price_diff_of cheapest priceDiff =
     (case priceDiff of
        None \<Rightarrow> Inr None
      | Some pd \<Rightarrow>
          (let priceDiffPerGram =
                 (if truthy (per_gram_price pd) then Some (ToNumber (per_gram_price pd)) else None)
           in if truthy_opt priceDiffPerGram \<and> truthy_opt cheapest then
                (case toFixed (percent pd) of
                   Inl err \<Rightarrow> Inl err
                 | Inr shownPercent \<Rightarrow>
                     Inr (Some (js_sub (num_opt priceDiffPerGram) (num_opt cheapest),
                                shownPercent)))
              else Inr None))"

definition card_formula_of :: "etf \<Rightarrow> error + (jsnum \<times> jsnum) option" where
  "card_formula_of e =
     (if (symbol e = ''ZGOLD'' \<or> symbol e = ''GLDTR'') \<and> truthy (gold_backing_grams e) then
        (case toFixed (gold_backing_grams e) of
           Inl err \<Rightarrow> Inl err
         | Inr shownBacking \<Rightarrow>
             Inr (Some (shownBacking,
                        js_div (ToNumber (current_price e)) (ToNumber (gold_backing_grams e)))))
      else Inr None)"

definition card_of ::
    "page \<Rightarrow> jsnum option \<Rightarrow> (string \<rightharpoonup> price_diff) option \<Rightarrow> etf \<Rightarrow> error + card" where
  "card_of pg cheapest differences e =
     (let perGramPrice = card_perGramPrice e in
      case differences of
        None \<Rightarrow> Inl TypeError
      | Some m \<Rightarrow>
          (case card_price_diff_of cheapest (m (symbol e)) of
             Inl err \<Rightarrow> Inl err
           | Inr shownDiff \<Rightarrow>
               (case card_formula_of e of
                  Inl err \<Rightarrow> Inl err
                | Inr shownFormula \<Rightarrow>
                    if etfList_el pg then
                      Inr \<lparr>card_symbol = symbol e,
                           card_isCheapest = isCheapest cheapest e,
                           card_price =
                             (if truthy_opt perGramPrice then PerGram (num_opt perGramPrice)
                              else SharePrice (formatPrice (current_price e))),
                           card_backing =
                             (if truthy (gold_backing_grams e)
                              then Some (gold_backing_grams e) else None),
                           card_price_diff = shownDiff,
                           card_formula = shownFormula\<rparr>
                    else Inl TypeError)))"

section \<open>\<open>displayResults\<close>\<close>

text \<open>
  What the call leaves on the page. A \<open>TypeError\<close> thrown on the way is the result of the
  call (\<open>compareETFs\<close> catches it and shows the error box); what had been written before
  it is not kept.
\<close>

record rendering =
  shown_recommendation :: "string option"
  shown_panel :: panel
  shown_cards :: "card list"

definition displayResults :: "page \<Rightarrow> data \<Rightarrow> error + rendering" where
  "displayResults pg d =
     (case all_etfs d of
        None \<Rightarrow> Inl TypeError
      | Some es \<Rightarrow>
          (let cheapest = cheapestPerGramPrice (etfsWithPerGram es);
               items = etfsWithBaseValue es
           in case (if baseValueComparison_el pg
                    then comparison_panel (spotGramGoldPrice d) items
                    else Inr NoElement) of
                Inl err \<Rightarrow> Inl err
              | Inr p \<Rightarrow>
                  (case for_each (card_of pg cheapest (price_difference d)) es of
                     Inl err \<Rightarrow> Inl err
                   | Inr cs \<Rightarrow>
                       if results_el pg then
                         Inr \<lparr>shown_recommendation =
                                (if recommendation_el pg then Some (recommendation d) else None),
                              shown_panel = p,
                              shown_cards = cs\<rparr>
                       else Inl TypeError)))"


section \<open>What the statements below are written with\<close>

text \<open>
  The price of a gram as the specification defines it: the price of a share divided by
  the grams of gold behind it. The places of the source that print a price of a gram
  are compared with this one formula.
\<close>

definition spec_per_gram_price :: "etf \<Rightarrow> jsnum" where
  "spec_per_gram_price e = js_div (ToNumber (current_price e)) (ToNumber (gold_backing_grams e))"

text \<open>The rational behind a finite number, to compare prices in the order of the rationals.\<close>

fun fin_of :: "jsnum \<Rightarrow> rat" where
  "fin_of (Fin r) = r"
| "fin_of NaN = 0"
| "fin_of PInf = 0"
| "fin_of NInf = 0"

fun is_fin :: "jsnum \<Rightarrow> bool" where
  "is_fin (Fin r) = True"
| "is_fin NaN = False"
| "is_fin PInf = False"
| "is_fin NInf = False"

definition per_gram :: "etf \<Rightarrow> rat" where
  "per_gram e = fin_of (spec_per_gram_price e)"

text \<open>
  What ECMAScript promises of \<open>sort\<close> on the qualifying funds, whichever algorithm the
  engine runs: the result holds the same items, no item stands before one that the
  comparator puts in front of it, and items of equal price keep the order they came in.
\<close>

definition stable_ranking :: "etf list \<Rightarrow> base_item list \<Rightarrow> bool" where
  "stable_ranking es ys =
     (mset ys = mset (map make_item (filter qualifies es)) \<and>
      sorted_wrt (\<lambda>a b. \<not> js_lt (Fin 0) (js_sub (item_perGramPrice a) (item_perGramPrice b))) ys \<and>
      (\<forall>k\<in>set ys.
         filter (\<lambda>x. item_perGramPrice x = item_perGramPrice k) ys =
         filter (\<lambda>x. item_perGramPrice x = item_perGramPrice k)
           (map make_item (filter qualifies es))))"

text \<open>The rows and the worked examples of a panel; none when there is no table.\<close>

fun rows_of :: "panel \<Rightarrow> table_row list" where
  "rows_of (Comparison c) = cmp_rows c"
| "rows_of NoData = []"
| "rows_of NoElement = []"

fun examples_of :: "panel \<Rightarrow> example_line list" where
  "examples_of (Comparison c) = cmp_examples c"
| "examples_of NoData = []"
| "examples_of NoElement = []"

text \<open>The qualifying funds in ascending order of the price of a gram, ties in input order.\<close>

definition ranked_funds :: "etf list \<Rightarrow> etf list" where
  "ranked_funds es = sort_key per_gram (filter qualifies es)"

text \<open>The lines of the summary for the funds after the best one; none when there is no table.\<close>

fun others_of :: "panel \<Rightarrow> other_line list" where
  "others_of (Comparison c) = cmp_others c"
| "others_of NoData = []"
| "others_of NoElement = []"

text \<open>
  Three readings of a call: the symbols of the rows in the order of the table, the
  symbols of the rows with the badge of the best fund, and the symbols of the cards with
  the badge of the cheapest fund.
\<close>

definition row_symbols :: "page \<Rightarrow> data \<Rightarrow> error + string list" where
  "row_symbols pg d =
     map_sum id (\<lambda>out. map row_symbol (rows_of (shown_panel out))) (displayResults pg d)"


definition cheapest_card_symbols :: "page \<Rightarrow> data \<Rightarrow> error + string list" where
  "cheapest_card_symbols pg d =
     map_sum id (\<lambda>out. map card_symbol (filter card_isCheapest (shown_cards out)))
       (displayResults pg d)"




subsection \<open>Inputs used as examples\<close>

definition full_page :: page where
  "full_page = \<lparr>recommendation_el = True, etfList_el = True, results_el = True,
                 baseValueComparison_el = True\<rparr>"

definition fund :: "string \<Rightarrow> jsval \<Rightarrow> jsval \<Rightarrow> etf" where
  "fund s price backing =
     \<lparr>symbol = s, current_price = price, gold_backing_grams = backing, nav_price = Null\<rparr>"

definition comparison_of :: "etf list \<Rightarrow> (string \<rightharpoonup> price_diff) \<Rightarrow> jsval \<Rightarrow> data" where
  "comparison_of es m spot =
     \<lparr>recommendation = [], all_etfs = Some es, price_difference = Some m,
      spot_gram_gold_price = spot\<rparr>"

text \<open>Scenario A of the specification: two funds at 50 a gram, \<open>A\<close> first.\<close>

definition tie_data :: data where
  "tie_data =
     comparison_of [fund ''A'' (Num 100) (Num 2), fund ''B'' (Num 90) (Num (9 / 5))]
       Map.empty (Num 50)"

text \<open>Scenario A again, without a spot price.\<close>

definition tie_no_spot_data :: data where
  "tie_no_spot_data =
     comparison_of [fund ''A'' (Num 100) (Num 2), fund ''B'' (Num 90) (Num (9 / 5))]
       Map.empty Null"

text \<open>Scenario B of the specification: \<open>A\<close> at 48 a gram before \<open>B\<close> at 40 a gram.\<close>

definition unsorted_data :: data where
  "unsorted_data =
     comparison_of [fund ''A'' (Num 120) (Num (5 / 2)), fund ''B'' (Num 80) (Num 2)]
       Map.empty (Num 40)"

text \<open>One fund with a negative backing.\<close>

definition negative_backing_data :: data where
  "negative_backing_data =
     comparison_of [fund ''N'' (Num 100) (Num (- 2))] Map.empty Null"

text \<open>One fund whose entry of \<open>price_difference\<close> has a price of a gram and no \<open>percent\<close>.\<close>

definition missing_percent_data :: data where
  "missing_percent_data =
     comparison_of [fund ''A'' (Num 100) (Num 2)]
       [''A'' \<mapsto> \<lparr>per_gram_price = Num 50, percent = Undefined\<rparr>] (Num 50)"



section \<open>Facts about the sort\<close>

lemma mset_insort_cmp: "mset (insort_cmp cmp x xs) = add_mset x (mset xs)"
  by (induction xs) auto

lemma mset_sort_cmp: "mset (sort_cmp cmp xs) = mset xs"
  by (induction xs) (auto simp: sort_cmp_def mset_insort_cmp)


lemma length_sort_cmp: "length (sort_cmp cmp xs) = length xs"
  by (metis mset_sort_cmp size_mset)

text \<open>Sorting the images under \<open>h\<close> is sorting the originals by what \<open>h\<close> makes of them.\<close>

lemma insort_cmp_map:
  "insort_cmp cmp (h x) (map h xs) = map h (insort_cmp (\<lambda>a b. cmp (h a) (h b)) x xs)"
  by (induction xs) auto

lemma sort_cmp_map:
  "sort_cmp cmp (map h xs) = map h (sort_cmp (\<lambda>a b. cmp (h a) (h b)) xs)"
  by (induction xs) (auto simp: sort_cmp_def insort_cmp_map)

lemma is_fin_iff: "is_fin x \<longleftrightarrow> (\<exists>r. x = Fin r)"
  by (cases x) auto

text \<open>On finite keys the comparator \<open>a - b\<close> is the order of the rationals.\<close>

lemma insort_cmp_fin:
  assumes "is_fin (key x)" "\<forall>y\<in>set xs. is_fin (key y)"
  shows "insort_cmp (\<lambda>a b. js_sub (key a) (key b)) x xs = insort_key (\<lambda>e. fin_of (key e)) x xs"
  using assms by (induction xs) (auto simp: is_fin_iff)

lemma sort_cmp_fin:
  assumes "\<forall>y\<in>set xs. is_fin (key y)"
  shows "sort_cmp (\<lambda>a b. js_sub (key a) (key b)) xs = sort_key (\<lambda>e. fin_of (key e)) xs"
  using assms
proof (induction xs)
  case Nil
  then show ?case by (simp add: sort_cmp_def)
next
  case (Cons x xs)
  then have "sort_cmp (\<lambda>a b. js_sub (key a) (key b)) xs = sort_key (\<lambda>e. fin_of (key e)) xs"
    by simp
  moreover have "sort_cmp (\<lambda>a b. js_sub (key a) (key b)) (x # xs)
      = insort_cmp (\<lambda>a b. js_sub (key a) (key b)) x (sort_cmp (\<lambda>a b. js_sub (key a) (key b)) xs)"
    by (simp add: sort_cmp_def)
  ultimately show ?case
    using Cons.prems by (simp add: insort_cmp_fin)
qed


section \<open>Facts about the ranking of the table\<close>

lemma qualifies_iff:
  "qualifies e \<longleftrightarrow>
     (\<exists>p b. current_price e = Num p \<and> gold_backing_grams e = Num b \<and> 0 < p \<and> 0 < b)"
  by (cases "current_price e"; cases "gold_backing_grams e") (auto simp: qualifies_def gt0_def)

lemma qualifies_per_gram:
  assumes "qualifies e"
  shows "spec_per_gram_price e = Fin (per_gram e)" and "0 < per_gram e"
  using assms by (auto simp: qualifies_iff per_gram_def spec_per_gram_price_def)

lemma make_item_sel [simp]:
  "item_etf (make_item e) = e"
  "item_baseValue (make_item e) = gold_backing_grams e"
  "item_perGramPrice (make_item e) = spec_per_gram_price e"
  by (simp_all add: make_item_def spec_per_gram_price_def Let_def)

lemma etfsWithBaseValue_ranked: "etfsWithBaseValue es = map make_item (ranked_funds es)"
proof -
  have fin: "\<forall>e\<in>set (filter qualifies es). is_fin (spec_per_gram_price e)"
    by (auto simp: qualifies_per_gram(1))
  have "etfsWithBaseValue es =
          map make_item (sort_cmp (\<lambda>a b. js_sub (spec_per_gram_price a) (spec_per_gram_price b))
                           (filter qualifies es))"
    by (simp add: etfsWithBaseValue_def sort_cmp_map)
  also have "\<dots> = map make_item (sort_key (\<lambda>e. fin_of (spec_per_gram_price e)) (filter qualifies es))"
    using sort_cmp_fin [OF fin] by simp
  finally show ?thesis by (simp add: ranked_funds_def per_gram_def [abs_def])
qed

lemma set_ranked_funds: "set (ranked_funds es) = {e \<in> set es. qualifies e}"
  by (auto simp: ranked_funds_def)



lemma for_each_Inr_iff: "for_each f xs = Inr ys \<longleftrightarrow> list_all2 (\<lambda>x y. f x = Inr y) xs ys"
proof (induction xs arbitrary: ys)
  case Nil
  then show ?case by auto
next
  case (Cons x xs)
  show ?case
    by (cases ys) (auto simp: Cons.IH [symmetric] split: sum.splits)
qed

lemma for_each_total:
  assumes "\<And>x. x \<in> set xs \<Longrightarrow> \<exists>y. f x = Inr y"
  shows "\<exists>ys. for_each f xs = Inr ys"
  using assms
proof (induction xs)
  case Nil
  then show ?case by simp
next
  case (Cons x xs)
  then obtain y where "f x = Inr y" by auto
  moreover from Cons obtain ys where "for_each f xs = Inr ys" by auto
  ultimately show ?case by simp
qed

lemma table_row_of_qualifies:
  assumes "qualifies e" "qualifies b"
  shows "\<exists>r. table_row_of h (make_item b) (i, make_item e) = Inr r
           \<and> row_symbol r = symbol e
           \<and> row_isBest r = (i = 0)
           \<and> row_baseValue r = ToNumber (gold_backing_grams e)
           \<and> row_current_price r = ToNumber (current_price e)
           \<and> row_perGramPrice r = Fin (per_gram e)
           \<and> row_priceDiffAbsolute r = (if i = 0 then Fin 0 else Fin (per_gram e - per_gram b))
           \<and> row_priceDiffPercent r =
                (if i = 0 then Fin 0 else Fin ((per_gram e - per_gram b) / per_gram b * 100))"
proof -
  from assms(1) obtain p g where e: "current_price e = Num p" "gold_backing_grams e = Num g"
    "0 < p" "0 < g"
    by (auto simp: qualifies_iff)
  have pe: "spec_per_gram_price e = Fin (per_gram e)" using assms(1) by (rule qualifies_per_gram)
  have pb: "spec_per_gram_price b = Fin (per_gram b)" "per_gram b \<noteq> 0"
    using qualifies_per_gram [OF assms(2)] by auto
  have pe': "js_div (Fin p) (Fin g) = Fin (per_gram e)"
    using pe e by (simp add: spec_per_gram_price_def)
  show ?thesis
    using e pb pe' by (simp add: table_row_of_def Let_def formatPrice_def)
qed

lemma table_rows_ranked:
  "\<exists>rows. table_rows (etfsWithBaseValue es) = Inr rows
      \<and> length rows = length (ranked_funds es)
      \<and> (\<forall>i<length rows.
            row_symbol (rows ! i) = symbol (ranked_funds es ! i)
          \<and> row_isBest (rows ! i) = (i = 0)
          \<and> row_baseValue (rows ! i) = ToNumber (gold_backing_grams (ranked_funds es ! i))
          \<and> row_current_price (rows ! i) = ToNumber (current_price (ranked_funds es ! i))
          \<and> row_perGramPrice (rows ! i) = Fin (per_gram (ranked_funds es ! i))
          \<and> row_priceDiffAbsolute (rows ! i) =
              (if i = 0 then Fin 0
               else Fin (per_gram (ranked_funds es ! i) - per_gram (hd (ranked_funds es))))
          \<and> row_priceDiffPercent (rows ! i) =
              (if i = 0 then Fin 0
               else Fin ((per_gram (ranked_funds es ! i) - per_gram (hd (ranked_funds es)))
                          / per_gram (hd (ranked_funds es)) * 100)))"
proof (cases "ranked_funds es")
  case Nil
  then show ?thesis by (simp add: etfsWithBaseValue_ranked table_rows_def)
next
  case (Cons b rest)
  define items where "items = map make_item (ranked_funds es)"
  define f where "f = table_row_of (hasNavData items) (make_item b)"
  have qb: "qualifies b"
    using Cons set_ranked_funds [of es] by (metis (mono_tags, lifting) list.set_intros(1) mem_Collect_eq)
  have q: "qualifies (ranked_funds es ! i)" if "i < length (ranked_funds es)" for i
    using that set_ranked_funds [of es] nth_mem by blast
  have tr: "table_rows (etfsWithBaseValue es) = for_each f (enumerate 0 items)"
    using Cons by (simp add: etfsWithBaseValue_ranked table_rows_def items_def f_def)
  have ex: "\<exists>y. f x = Inr y" if "x \<in> set (enumerate 0 items)" for x
  proof -
    from that have "fst x < length items" "items ! fst x = snd x"
      by (simp_all add: in_set_enumerate_eq)
    then obtain i where i: "i < length items" "x = (i, items ! i)"
      by (cases x) auto
    then have "items ! i = make_item (ranked_funds es ! i)" "qualifies (ranked_funds es ! i)"
      using q by (simp_all add: items_def)
    then show ?thesis
      using table_row_of_qualifies [OF _ qb, of "ranked_funds es ! i" "hasNavData items" i] i
      by (auto simp: f_def)
  qed
  obtain rows where rows: "for_each f (enumerate 0 items) = Inr rows"
    using for_each_total [of "enumerate 0 items" f] ex by blast
  then have la: "list_all2 (\<lambda>x y. f x = Inr y) (enumerate 0 items) rows"
    by (simp add: for_each_Inr_iff)
  then have len: "length rows = length (ranked_funds es)"
    by (auto simp: list_all2_conv_all_nth items_def)
  have row: "f (i, make_item (ranked_funds es ! i)) = Inr (rows ! i)" if "i < length rows" for i
    using la that len by (auto simp: list_all2_conv_all_nth nth_enumerate_eq items_def)
  have hd: "hd (ranked_funds es) = b" using Cons by simp
  show ?thesis
  proof (intro exI conjI allI impI)
    show "table_rows (etfsWithBaseValue es) = Inr rows" using tr rows by simp
    show "length rows = length (ranked_funds es)" by (rule len)
  next
    fix i assume i: "i < length rows"
    from table_row_of_qualifies [OF q qb, of i "hasNavData items" i] i len row [OF i]
    obtain r where r: "r = rows ! i" 
      "row_symbol r = symbol (ranked_funds es ! i)"
      "row_isBest r = (i = 0)"
      "row_baseValue r = ToNumber (gold_backing_grams (ranked_funds es ! i))"
      "row_current_price r = ToNumber (current_price (ranked_funds es ! i))"
      "row_perGramPrice r = Fin (per_gram (ranked_funds es ! i))"
      "row_priceDiffAbsolute r = (if i = 0 then Fin 0 else Fin (per_gram (ranked_funds es ! i) - per_gram b))"
      "row_priceDiffPercent r =
                (if i = 0 then Fin 0 else Fin ((per_gram (ranked_funds es ! i) - per_gram b) / per_gram b * 100))"
      by (auto simp: f_def)
    show "row_symbol (rows ! i) = symbol (ranked_funds es ! i)" using r by simp
    show "row_isBest (rows ! i) = (i = 0)" using r by simp
    show "row_baseValue (rows ! i) = ToNumber (gold_backing_grams (ranked_funds es ! i))" using r by simp
    show "row_current_price (rows ! i) = ToNumber (current_price (ranked_funds es ! i))" using r by simp
    show "row_perGramPrice (rows ! i) = Fin (per_gram (ranked_funds es ! i))" using r by simp
    show "row_priceDiffAbsolute (rows ! i) =
              (if i = 0 then Fin 0
               else Fin (per_gram (ranked_funds es ! i) - per_gram (hd (ranked_funds es))))"
      using r hd by simp
    show "row_priceDiffPercent (rows ! i) =
              (if i = 0 then Fin 0
               else Fin ((per_gram (ranked_funds es ! i) - per_gram (hd (ranked_funds es)))
                          / per_gram (hd (ranked_funds es)) * 100))"
      using r hd by simp
  qed
qed

lemma comparison_panel_Inr:
  assumes "comparison_panel spot items = Inr p"
  shows "table_rows items = Inr (rows_of p)"
    and "others_of p = map (other_line_of (hd items)) (tl items)"
    and "examples_of p = [] \<or> examples spot items = Inr (examples_of p)"
    and "items = [] \<longleftrightarrow> p = NoData"
    and "p \<noteq> NoElement"
  using assms
  by (auto simp: comparison_panel_def table_rows_def split: list.splits sum.splits)

lemma displayResults_Inr:
  assumes "displayResults pg d = Inr out" "all_etfs d = Some es"
  shows "(if baseValueComparison_el pg
          then comparison_panel (spotGramGoldPrice d) (etfsWithBaseValue es)
          else Inr NoElement) = Inr (shown_panel out)"
    and "for_each (card_of pg (cheapestPerGramPrice (etfsWithPerGram es)) (price_difference d)) es
           = Inr (shown_cards out)"
    and "results_el pg"
  using assms
  by (auto simp: displayResults_def Let_def split: sum.splits if_splits)









section \<open>Facts about the cards and about stable rankings\<close>

lemma card_of_Inr:
  assumes "card_of pg cheapest differences e = Inr c"
  shows "card_symbol c = symbol e" and "card_isCheapest c = isCheapest cheapest e"
  using assms
  by (auto simp: card_of_def Let_def split: option.splits sum.splits if_splits)

lemma shown_cards_facts:
  assumes "displayResults pg d = Inr out" "all_etfs d = Some es"
  shows "list_all2 (\<lambda>e c. card_symbol c = symbol e
            \<and> card_isCheapest c = isCheapest (cheapestPerGramPrice (etfsWithPerGram es)) e)
           es (shown_cards out)"
proof -
  have "list_all2 (\<lambda>e c. card_of pg (cheapestPerGramPrice (etfsWithPerGram es)) (price_difference d) e = Inr c)
          es (shown_cards out)"
    using displayResults_Inr(2) [OF assms] by (simp add: for_each_Inr_iff)
  then show ?thesis
    by (rule list_all2_mono) (auto dest: card_of_Inr)
qed

lemma shown_rows_el:
  assumes "displayResults pg d = Inr out" "all_etfs d = Some es" "baseValueComparison_el pg"
  shows "table_rows (etfsWithBaseValue es) = Inr (rows_of (shown_panel out))"
  using displayResults_Inr(1) [OF assms(1,2)] assms(3) comparison_panel_Inr(1) by auto

lemma shown_row_symbols:
  assumes "displayResults pg d = Inr out" "all_etfs d = Some es" "baseValueComparison_el pg"
  shows "map row_symbol (rows_of (shown_panel out)) = map symbol (ranked_funds es)"
    and "\<forall>i<length (rows_of (shown_panel out)). row_isBest (rows_of (shown_panel out) ! i) = (i = 0)"
proof -
  from table_rows_ranked [of es] obtain rows where rows:
    "table_rows (etfsWithBaseValue es) = Inr rows"
    "length rows = length (ranked_funds es)"
    "\<And>i. i < length rows \<Longrightarrow> row_symbol (rows ! i) = symbol (ranked_funds es ! i)
        \<and> row_isBest (rows ! i) = (i = 0)"
    by blast
  have eq: "rows_of (shown_panel out) = rows" using shown_rows_el [OF assms] rows(1) by simp
  show "map row_symbol (rows_of (shown_panel out)) = map symbol (ranked_funds es)"
    unfolding eq using rows(2,3) by (auto intro: nth_equalityI)
  show "\<forall>i<length (rows_of (shown_panel out)). row_isBest (rows_of (shown_panel out) ! i) = (i = 0)"
    unfolding eq using rows(3) by simp
qed


lemma qualifies_truthy: "qualifies e \<Longrightarrow> truthy (gold_backing_grams e)"
  by (simp add: qualifies_def)




lemma isCheapest_falsy:
  "\<not> truthy (gold_backing_grams e) \<Longrightarrow> \<not> isCheapest c e"
  "\<not> isCheapest None e"
  by (simp_all add: isCheapest_def)




lemma make_item_fin:
  assumes "x \<in> set (map make_item (filter qualifies es))"
  shows "is_fin (item_perGramPrice x)"
  using assms qualifies_per_gram(1) by auto

lemma js_le_fin:
  assumes "is_fin a" "is_fin b"
  shows "(\<not> js_lt (Fin 0) (js_sub a b)) = (fin_of a \<le> fin_of b)"
  using assms by (cases a; cases b) auto

lemma fin_key_eq:
  assumes "is_fin a" "is_fin b"
  shows "(a = b) = (fin_of a = fin_of b)"
  using assms by (cases a; cases b) auto

lemma stable_ranking_unique:
  assumes "stable_ranking es ys"
  shows "ys = etfsWithBaseValue es"
proof -
  define xs where "xs = map make_item (filter qualifies es)"
  define f where "f = (\<lambda>x::base_item. fin_of (item_perGramPrice x))"
  from assms have m: "mset ys = mset xs"
    and s: "sorted_wrt (\<lambda>a b. \<not> js_lt (Fin 0) (js_sub (item_perGramPrice a) (item_perGramPrice b))) ys"
    and st: "\<And>k. k \<in> set ys \<Longrightarrow>
         filter (\<lambda>x. item_perGramPrice x = item_perGramPrice k) ys =
         filter (\<lambda>x. item_perGramPrice x = item_perGramPrice k) xs"
    by (auto simp: stable_ranking_def xs_def)
  have seteq: "set ys = set xs" using m by (metis set_mset_mset)
  have finx: "is_fin (item_perGramPrice x)" if "x \<in> set xs" for x
    using make_item_fin that by (simp add: xs_def)
  have finy: "is_fin (item_perGramPrice x)" if "x \<in> set ys" for x
    using finx that seteq by simp
  have "sorted_wrt (\<lambda>a b. f a \<le> f b) ys"
    using s
  proof (rule sorted_wrt_mono_rel [rotated])
    fix a b assume "a \<in> set ys" "b \<in> set ys"
      and "\<not> js_lt (Fin 0) (js_sub (item_perGramPrice a) (item_perGramPrice b))"
    then show "f a \<le> f b"
      using js_le_fin [of "item_perGramPrice a" "item_perGramPrice b"] finy
      by (simp add: f_def)
  qed
  then have srt: "sorted (map f ys)" by (simp add: sorted_map)
  have stab: "filter (\<lambda>x. f k = f x) ys = filter (\<lambda>x. f k = f x) xs" if k: "k \<in> set ys" for k
  proof -
    have pt: "(item_perGramPrice x = item_perGramPrice k) = (f k = f x)"
      if "x \<in> set xs" for x
      using fin_key_eq [OF finx [OF that] finy [OF k]]
      by (auto simp: f_def)
    have "filter (\<lambda>x. f k = f x) ys = filter (\<lambda>x. item_perGramPrice x = item_perGramPrice k) ys"
      by (rule filter_cong [OF refl]) (simp add: pt seteq)
    also have "\<dots> = filter (\<lambda>x. item_perGramPrice x = item_perGramPrice k) xs"
      using st [OF k] .
    also have "\<dots> = filter (\<lambda>x. f k = f x) xs"
      by (rule filter_cong [OF refl]) (simp add: pt)
    finally show ?thesis .
  qed
  have "sort_key f xs = ys"
    using m stab srt by (rule properties_for_sort_key)
  moreover have "etfsWithBaseValue es = sort_key f xs"
  proof -
    have "\<forall>y\<in>set xs. is_fin (item_perGramPrice y)"
      using finx by simp
    from sort_cmp_fin [OF this] show ?thesis
      by (simp add: etfsWithBaseValue_def xs_def f_def)
  qed
  ultimately show ?thesis by simp
qed

lemma stable_ranking_etfsWithBaseValue: "stable_ranking es (etfsWithBaseValue es)"
proof -
  define xs where "xs = map make_item (filter qualifies es)"
  define f where "f = (\<lambda>x::base_item. fin_of (item_perGramPrice x))"
  have finx: "is_fin (item_perGramPrice x)" if "x \<in> set xs" for x
    using make_item_fin that by (simp add: xs_def)
  have eq: "etfsWithBaseValue es = sort_key f xs"
  proof -
    have "\<forall>y\<in>set xs. is_fin (item_perGramPrice y)"
      using finx by simp
    from sort_cmp_fin [OF this] show ?thesis
      by (simp add: etfsWithBaseValue_def xs_def f_def)
  qed
  have "sorted_wrt (\<lambda>a b. f a \<le> f b) (sort_key f xs)"
    using sorted_sort_key [of f xs] by (simp add: sorted_map)
  then have s: "sorted_wrt (\<lambda>a b. \<not> js_lt (Fin 0) (js_sub (item_perGramPrice a) (item_perGramPrice b)))
                 (sort_key f xs)"
  proof (rule sorted_wrt_mono_rel [rotated])
    fix a b assume "a \<in> set (sort_key f xs)" "b \<in> set (sort_key f xs)" "f a \<le> f b"
    then show "\<not> js_lt (Fin 0) (js_sub (item_perGramPrice a) (item_perGramPrice b))"
      using js_le_fin [of "item_perGramPrice a" "item_perGramPrice b"] finx
      by (simp add: f_def)
  qed
  have st: "filter (\<lambda>x. item_perGramPrice x = item_perGramPrice k) (sort_key f xs) =
            filter (\<lambda>x. item_perGramPrice x = item_perGramPrice k) xs"
    if k: "k \<in> set (sort_key f xs)" for k
  proof -
    have kx: "k \<in> set xs" using k by simp
    have pt: "(item_perGramPrice x = item_perGramPrice k) = (f x = f k)"
      if "x \<in> set xs" for x
      using fin_key_eq [OF finx [OF that] finx [OF kx]]
      by (auto simp: f_def)
    have "filter (\<lambda>x. item_perGramPrice x = item_perGramPrice k) (sort_key f xs)
            = filter (\<lambda>x. f x = f k) (sort_key f xs)"
      by (rule filter_cong [OF refl]) (simp add: pt)
    also have "\<dots> = filter (\<lambda>x. f x = f k) xs" by (rule sort_key_stable)
    also have "\<dots> = filter (\<lambda>x. item_perGramPrice x = item_perGramPrice k) xs"
      by (rule filter_cong [OF refl]) (simp add: pt)
    finally show ?thesis .
  qed
  show ?thesis
    unfolding stable_ranking_def eq using s st by (simp add: xs_def)
qed

section \<open>Facts about the places that print a price of a gram\<close>

lemma displayResults_empty:
  assumes "all_etfs d = Some []" and "results_el pg"
  shows "displayResults pg d =
           Inr \<lparr>shown_recommendation = (if recommendation_el pg then Some (recommendation d) else None),
                shown_panel = (if baseValueComparison_el pg then NoData else NoElement),
                shown_cards = []\<rparr>"
  using assms
  by (simp add: displayResults_def etfsWithBaseValue_def sort_cmp_def comparison_panel_def)









lemma displayResults_all_etfs:
  assumes "displayResults pg d = Inr out"
  obtains es where "all_etfs d = Some es"
  using assms by (cases "all_etfs d") (auto simp: displayResults_def)

lemma shown_rows_others_determined:
  assumes "displayResults pg d = Inr out" "all_etfs d = Some es"
  shows "rows_of (shown_panel out) =
           (if baseValueComparison_el pg then projr (table_rows (etfsWithBaseValue es)) else [])"
    and "others_of (shown_panel out) =
           (if baseValueComparison_el pg
            then map (other_line_of (hd (etfsWithBaseValue es))) (tl (etfsWithBaseValue es))
            else [])"
proof -
  show "rows_of (shown_panel out) =
           (if baseValueComparison_el pg then projr (table_rows (etfsWithBaseValue es)) else [])"
  proof (cases "baseValueComparison_el pg")
    case True
    then show ?thesis using shown_rows_el [OF assms True] by simp
  next
    case False
    then have "shown_panel out = NoElement" using displayResults_Inr(1) [OF assms] by simp
    then show ?thesis using False by simp
  qed
  show "others_of (shown_panel out) =
           (if baseValueComparison_el pg
            then map (other_line_of (hd (etfsWithBaseValue es))) (tl (etfsWithBaseValue es))
            else [])"
  proof (cases "baseValueComparison_el pg")
    case True
    then show ?thesis
      using displayResults_Inr(1) [OF assms] comparison_panel_Inr(2) by auto
  next
    case False
    then have "shown_panel out = NoElement" using displayResults_Inr(1) [OF assms] by simp
    then show ?thesis using False by simp
  qed
qed

text \<open>
  When no fund has a truthy backing, and the page and \<open>price_difference\<close> are there, the
  call ends without a fault, the panel shows the message that there is no data, and no
  card is marked.
\<close>

lemma no_backing_no_cheapest:
  assumes es: "all_etfs d = Some es"
    and nb: "\<forall>e\<in>set es. \<not> truthy (gold_backing_grams e)"
    and pd: "price_difference d = Some m"
    and pg: "etfList_el pg" "results_el pg" "baseValueComparison_el pg"
  shows "\<exists>out. displayResults pg d = Inr out \<and> shown_panel out = NoData
           \<and> (\<forall>c\<in>set (shown_cards out). \<not> card_isCheapest c)"
proof -
  have f1: "filter (\<lambda>e. truthy (gold_backing_grams e)) es = []"
    using nb by (simp add: filter_empty_conv)
  have f2: "filter qualifies es = []"
    using nb by (auto simp: filter_empty_conv dest: qualifies_truthy)
  have ch: "cheapestPerGramPrice (etfsWithPerGram es) = None"
    by (simp add: etfsWithPerGram_def f1 sort_cmp_def cheapestPerGramPrice_def)
  have items: "etfsWithBaseValue es = []"
    by (simp add: etfsWithBaseValue_def f2 sort_cmp_def)
  have card: "\<exists>c. card_of pg None (Some m) e = Inr c" if "e \<in> set es" for e
  proof -
    have "\<not> truthy (gold_backing_grams e)" using nb that by simp
    then show ?thesis
      using pg(1)
      by (simp add: card_of_def card_price_diff_of_def card_formula_of_def Let_def
               split: option.splits)
  qed
  from for_each_total [of es "card_of pg None (Some m)"] card
  obtain cs where cs: "for_each (card_of pg None (Some m)) es = Inr cs" by blast
  define out where "out = \<lparr>shown_recommendation =
                                (if recommendation_el pg then Some (recommendation d) else None),
                              shown_panel = NoData, shown_cards = cs\<rparr>"
  have r: "displayResults pg d = Inr out"
    using es pd pg cs ch items
    by (simp add: displayResults_def comparison_panel_def out_def)
  have "\<not> card_isCheapest c" if "c \<in> set (shown_cards out)" for c
  proof -
    have "list_all2 (\<lambda>e c. card_isCheapest c = isCheapest (cheapestPerGramPrice (etfsWithPerGram es)) e)
            es (shown_cards out)"
      using shown_cards_facts [OF r es] by (rule list_all2_mono) simp
    then have all: "\<forall>i<length (shown_cards out).
                 card_isCheapest (shown_cards out ! i) = isCheapest None (es ! i)"
      using ch by (simp add: list_all2_conv_all_nth)
    from that obtain i where "i < length (shown_cards out)" "c = shown_cards out ! i"
      by (auto simp: in_set_conv_nth)
    then have "card_isCheapest c = isCheapest None (es ! i)" using all by simp
    then show ?thesis by (simp add: isCheapest_falsy(2))
  qed
  then show ?thesis using r by (auto simp: out_def)
qed

section \<open>The base value between ZGOLD and GLDTR\<close>

text \<open>
  Claim C10. The base value, GLDTR's price divided by ZGOLD's price, is computed exactly
  when the fund list holds a ZGOLD and a GLDTR (the first of each symbol) whose prices are
  both numbers above zero; it is then the quotient of two positive numbers. In every
  other case it is \<open>null\<close>, so the division never meets a zero, negative or absent
  divisor.
\<close>

theorem baseValue_computed_iff:
  "baseValue es = Some v \<longleftrightarrow>
     (\<exists>z g q p. find (\<lambda>e. symbol e = ''ZGOLD'') es = Some z
        \<and> find (\<lambda>e. symbol e = ''GLDTR'') es = Some g
        \<and> current_price z = Num q \<and> current_price g = Num p
        \<and> 0 < q \<and> 0 < p \<and> v = Fin (p / q))"
proof (cases "find (\<lambda>e. symbol e = ''ZGOLD'') es")
  case None
  then show ?thesis by (simp add: baseValue_def)
next
  case (Some z)
  note z = this
  show ?thesis
  proof (cases "find (\<lambda>e. symbol e = ''GLDTR'') es")
    case None
    then show ?thesis using z by (simp add: baseValue_def)
  next
    case (Some g)
    show ?thesis
      using z Some
      by (cases "current_price z"; cases "current_price g")
         (auto simp: baseValue_def gt0_def)
  qed
qed

theorem baseValue_computed_iff_witness:
  "baseValue [fund ''ZGOLD'' (Num 50) Null, fund ''GLDTR'' (Num 100) Null] = Some (Fin 2)
   \<and> baseValue [fund ''ZGOLD'' (Num 0) Null, fund ''GLDTR'' (Num 100) Null] = None"
proof
  have "baseValue [fund ''ZGOLD'' (Num 50) Null, fund ''GLDTR'' (Num 100) Null]
          = Some (Fin (100 / 50))"
    by (rule iffD2 [OF baseValue_computed_iff]) (simp add: fund_def)
  then show "baseValue [fund ''ZGOLD'' (Num 50) Null, fund ''GLDTR'' (Num 100) Null]
          = Some (Fin 2)"
    by simp
next
  have "baseValue [fund ''ZGOLD'' (Num 0) Null, fund ''GLDTR'' (Num 100) Null] \<noteq> Some v" for v
    using baseValue_computed_iff
            [of "[fund ''ZGOLD'' (Num 0) Null, fund ''GLDTR'' (Num 100) Null]" v]
    by (simp add: fund_def)
  then show "baseValue [fund ''ZGOLD'' (Num 0) Null, fund ''GLDTR'' (Num 100) Null] = None"
    by (cases "baseValue [fund ''ZGOLD'' (Num 0) Null, fund ''GLDTR'' (Num 100) Null]") auto
qed

section \<open>The round trip of the price of a gram\<close>



section \<open>The cheapest fund of the table\<close>




section \<open>Which fund is marked\<close>




section \<open>The order of what is shown\<close>

text \<open>
  Claim C7, as the source has it. The cards follow the order of \<open>all_etfs\<close>. The rows of
  the table do not: they are the qualifying funds in the order of a stable ascending sort
  by the price of a gram that \<open>displayResults\<close> runs itself, and they follow the order of
  \<open>all_etfs\<close> when that order is already ascending.
\<close>

theorem display_order:
  assumes "all_etfs d = Some es" and "displayResults pg d = Inr out"
  shows "map card_symbol (shown_cards out) = map symbol es
       \<and> (baseValueComparison_el pg \<longrightarrow>
            map row_symbol (rows_of (shown_panel out))
              = map symbol (sort_key per_gram (filter qualifies es)))
       \<and> (baseValueComparison_el pg \<longrightarrow> sorted (map per_gram (filter qualifies es)) \<longrightarrow>
            map row_symbol (rows_of (shown_panel out)) = map symbol (filter qualifies es))"
proof (intro conjI impI)
  have "list_all2 (\<lambda>e c. card_symbol c = symbol e) es (shown_cards out)"
    using shown_cards_facts [OF assms(2,1)] by (rule list_all2_mono) simp
  then show "map card_symbol (shown_cards out) = map symbol es"
    by (induction rule: list_all2_induct) simp_all
next
  assume "baseValueComparison_el pg"
  then show "map row_symbol (rows_of (shown_panel out))
              = map symbol (sort_key per_gram (filter qualifies es))"
    using shown_row_symbols(1) [OF assms(2,1)] by (simp add: ranked_funds_def)
next
  assume el: "baseValueComparison_el pg" and "sorted (map per_gram (filter qualifies es))"
  then have "sort_key per_gram (filter qualifies es) = filter qualifies es"
    by (simp add: sort_key_id_if_sorted)
  then show "map row_symbol (rows_of (shown_panel out)) = map symbol (filter qualifies es)"
    using shown_row_symbols(1) [OF assms(2,1) el] by (simp add: ranked_funds_def)
qed

theorem display_order_counterexample:
  "map symbol (the (all_etfs unsorted_data)) = [''A'', ''B'']
   \<and> row_symbols full_page unsorted_data = Inr [''B'', ''A'']"
  by code_simp

theorem display_order_witness:
  "all_etfs tie_data = Some [fund ''A'' (Num 100) (Num 2), fund ''B'' (Num 90) (Num (9 / 5))]
   \<and> \<not> isl (displayResults full_page tie_data)
   \<and> baseValueComparison_el full_page
   \<and> sorted (map per_gram (filter qualifies
         [fund ''A'' (Num 100) (Num 2), fund ''B'' (Num 90) (Num (9 / 5))]))
   \<and> map card_symbol (shown_cards (projr (displayResults full_page tie_data))) = [''A'', ''B'']
   \<and> map row_symbol (rows_of (shown_panel (projr (displayResults full_page tie_data))))
       = [''A'', ''B'']"
proof -
  have h1: "all_etfs tie_data = Some [fund ''A'' (Num 100) (Num 2), fund ''B'' (Num 90) (Num (9 / 5))]"
    by (simp add: tie_data_def comparison_of_def)
  have h2: "\<not> isl (displayResults full_page tie_data)" by code_simp
  then have h2': "displayResults full_page tie_data = Inr (projr (displayResults full_page tie_data))"
    by simp
  have h3: "baseValueComparison_el full_page" by (simp add: full_page_def)
  have q: "filter qualifies [fund ''A'' (Num 100) (Num 2), fund ''B'' (Num 90) (Num (9 / 5))]
             = [fund ''A'' (Num 100) (Num 2), fund ''B'' (Num 90) (Num (9 / 5))]"
    by (simp add: qualifies_def gt0_def fund_def)
  have h4: "sorted (map per_gram (filter qualifies
         [fund ''A'' (Num 100) (Num 2), fund ''B'' (Num 90) (Num (9 / 5))]))"
    unfolding q by (simp add: per_gram_def spec_per_gram_price_def fund_def)
  show ?thesis
    using display_order [OF h1 h2'] h1 h2 h3 h4 q by (simp add: fund_def)
qed

section \<open>The ranking is determined by the input\<close>

text \<open>
  Claim C6. The ranking of the table is a stable ascending arrangement of the
  qualifying funds, and any two arrangements that meet this contract of \<open>sort\<close> are the
  same list, with the same rows and differences. And two calls on the same page whose
  data hold the same fund sequence show the same rows in the same order, with the same
  absolute and percent differences in the table and in the summary, whatever else the
  data hold.
\<close>

theorem ranking_deterministic:
  "stable_ranking es (etfsWithBaseValue es)
   \<and> (stable_ranking es r1 \<longrightarrow> stable_ranking es r2 \<longrightarrow>
        r1 = r2 \<and> r1 = etfsWithBaseValue es
        \<and> table_rows r1 = table_rows r2
        \<and> map (other_line_of (hd r1)) (tl r1) = map (other_line_of (hd r2)) (tl r2))
   \<and> (all_etfs d1 = all_etfs d2 \<longrightarrow>
        displayResults pg d1 = Inr out1 \<longrightarrow> displayResults pg d2 = Inr out2 \<longrightarrow>
        rows_of (shown_panel out1) = rows_of (shown_panel out2)
        \<and> others_of (shown_panel out1) = others_of (shown_panel out2))"
proof (intro conjI impI)
  show "stable_ranking es (etfsWithBaseValue es)" by (rule stable_ranking_etfsWithBaseValue)
next
  assume a: "stable_ranking es r1" "stable_ranking es r2"
  show e1: "r1 = etfsWithBaseValue es" using a(1) by (rule stable_ranking_unique)
  have e2: "r2 = etfsWithBaseValue es" using a(2) by (rule stable_ranking_unique)
  show "r1 = r2" using e1 e2 by simp
  then show "table_rows r1 = table_rows r2"
    and "map (other_line_of (hd r1)) (tl r1) = map (other_line_of (hd r2)) (tl r2)"
    by simp_all
next
  assume same: "all_etfs d1 = all_etfs d2"
    and r1: "displayResults pg d1 = Inr out1" and r2: "displayResults pg d2 = Inr out2"
  from r1 obtain fs where fs: "all_etfs d1 = Some fs" by (rule displayResults_all_etfs)
  then have fs2: "all_etfs d2 = Some fs" using same by simp
  show "rows_of (shown_panel out1) = rows_of (shown_panel out2)"
    using shown_rows_others_determined(1) [OF r1 fs] shown_rows_others_determined(1) [OF r2 fs2]
    by simp
  show "others_of (shown_panel out1) = others_of (shown_panel out2)"
    using shown_rows_others_determined(2) [OF r1 fs] shown_rows_others_determined(2) [OF r2 fs2]
    by simp
qed

theorem ranking_deterministic_witness:
  "stable_ranking [fund ''A'' (Num 100) (Num 2), fund ''B'' (Num 90) (Num (9 / 5))]
     [make_item (fund ''A'' (Num 100) (Num 2)), make_item (fund ''B'' (Num 90) (Num (9 / 5)))]
   \<and> stable_ranking [fund ''A'' (Num 100) (Num 2), fund ''B'' (Num 90) (Num (9 / 5))]
       (etfsWithBaseValue [fund ''A'' (Num 100) (Num 2), fund ''B'' (Num 90) (Num (9 / 5))])
   \<and> [make_item (fund ''A'' (Num 100) (Num 2)), make_item (fund ''B'' (Num 90) (Num (9 / 5)))]
       = etfsWithBaseValue [fund ''A'' (Num 100) (Num 2), fund ''B'' (Num 90) (Num (9 / 5))]
   \<and> all_etfs tie_data = all_etfs tie_no_spot_data
   \<and> \<not> isl (displayResults full_page tie_data)
   \<and> \<not> isl (displayResults full_page tie_no_spot_data)
   \<and> rows_of (shown_panel (projr (displayResults full_page tie_data)))
       = rows_of (shown_panel (projr (displayResults full_page tie_no_spot_data)))
   \<and> length (rows_of (shown_panel (projr (displayResults full_page tie_data)))) = 2"
proof -
  have s1: "stable_ranking [fund ''A'' (Num 100) (Num 2), fund ''B'' (Num 90) (Num (9 / 5))]
     [make_item (fund ''A'' (Num 100) (Num 2)), make_item (fund ''B'' (Num 90) (Num (9 / 5)))]"
    by (simp add: stable_ranking_def qualifies_def gt0_def spec_per_gram_price_def fund_def)
  have same: "all_etfs tie_data = all_etfs tie_no_spot_data"
    by (simp add: tie_data_def tie_no_spot_data_def comparison_of_def)
  have n1: "\<not> isl (displayResults full_page tie_data)" by code_simp
  have n2: "\<not> isl (displayResults full_page tie_no_spot_data)" by code_simp
  have len: "length (rows_of (shown_panel (projr (displayResults full_page tie_data)))) = 2"
    by code_simp
  from n1 have i1: "displayResults full_page tie_data
                      = Inr (projr (displayResults full_page tie_data))" by simp
  from n2 have i2: "displayResults full_page tie_no_spot_data
                      = Inr (projr (displayResults full_page tie_no_spot_data))" by simp
  note T = ranking_deterministic
            [of "[fund ''A'' (Num 100) (Num 2), fund ''B'' (Num 90) (Num (9 / 5))]"
                "[make_item (fund ''A'' (Num 100) (Num 2)),
                  make_item (fund ''B'' (Num 90) (Num (9 / 5)))]"
                "etfsWithBaseValue [fund ''A'' (Num 100) (Num 2), fund ''B'' (Num 90) (Num (9 / 5))]"
                tie_data tie_no_spot_data full_page
                "projr (displayResults full_page tie_data)"
                "projr (displayResults full_page tie_no_spot_data)"]
  from T s1 have a: "stable_ranking [fund ''A'' (Num 100) (Num 2), fund ''B'' (Num 90) (Num (9 / 5))]
       (etfsWithBaseValue [fund ''A'' (Num 100) (Num 2), fund ''B'' (Num 90) (Num (9 / 5))])"
    and b: "[make_item (fund ''A'' (Num 100) (Num 2)), make_item (fund ''B'' (Num 90) (Num (9 / 5)))]
       = etfsWithBaseValue [fund ''A'' (Num 100) (Num 2), fund ''B'' (Num 90) (Num (9 / 5))]"
    by blast+
  from T same i1 i2 have c: "rows_of (shown_panel (projr (displayResults full_page tie_data)))
       = rows_of (shown_panel (projr (displayResults full_page tie_no_spot_data)))"
    by blast
  show ?thesis using s1 a b same n1 n2 c len by (intro conjI)
qed

section \<open>Calls that go wrong\<close>

text \<open>
  Claim C2, at a failing input. A fund with the backing \<open>-2\<close> passes the filter of the
  ranking for the cards, which tests the backing for truthiness only; it is selected as
  the cheapest fund and its card is marked.
\<close>

theorem negative_backing_marked_cheapest:
  "map (\<lambda>i. symbol (pg_etf i)) (etfsWithPerGram [fund ''N'' (Num 100) (Num (- 2))]) = [''N'']
   \<and> cheapestPerGramPrice (etfsWithPerGram [fund ''N'' (Num 100) (Num (- 2))]) = Some (Fin (- 50))
   \<and> cheapest_card_symbols full_page negative_backing_data = Inr [''N'']"
  by code_simp

text \<open>
  Claim C8, at a failing input. The entry of \<open>price_difference\<close> for the fund has a price
  of a gram and no \<open>percent\<close>: the call throws a \<open>TypeError\<close>.
\<close>

theorem missing_percent_throws:
  "displayResults full_page missing_percent_data = Inl TypeError"
  by code_simp

text \<open>
  Claim C9, at a failing input. No fund qualifies, the panel shows the message that
  there is no data, and yet the card of the one fund is marked as the cheapest.
\<close>

theorem no_ranking_yet_cheapest:
  "filter qualifies (the (all_etfs negative_backing_data)) = []
   \<and> displayResults full_page negative_backing_data =
       Inr \<lparr>shown_recommendation = Some [],
            shown_panel = NoData,
            shown_cards =
              [\<lparr>card_symbol = ''N'', card_isCheapest = True,
                card_price = PerGram (Fin (- 50)),
                card_backing = Some (Num (- 2)),
                card_price_diff = None, card_formula = None\<rparr>]\<rparr>"
  by code_simp

section \<open>The places that print a price of a gram\<close>




end
